theory Spec2Isabelle
  imports Main "HOL-Library.Sublist"
begin

section \<open>The Python path functions the tool calls\<close>

text \<open>
  \<^verbatim>\<open>protoc.py\<close> calls four members of \<^verbatim>\<open>os.path\<close> (the POSIX flavour):
  \<^verbatim>\<open>os.sep\<close>, \<^verbatim>\<open>commonprefix\<close>, \<^verbatim>\<open>splitext\<close> and \<^verbatim>\<open>join\<close>.
  Paths are Python strings, here \<^typ>\<open>string\<close>.
\<close>

definition os_sep :: string where
  "os_sep = ''/''"

definition extsep :: string where
  "extsep = ''.''"

text \<open>
  \<^verbatim>\<open>commonprefix([a, b])\<close> takes the smaller string \<^verbatim>\<open>s1\<close> and the larger one \<^verbatim>\<open>s2\<close>
  and runs
  \<^verbatim>\<open>for i, c in enumerate(s1): if c != s2[i]: return s1[:i]\<close>, then \<^verbatim>\<open>return s1\<close>.
  The scan below is that loop; its result does not depend on which of the two
  strings is scanned (\<open>commonprefix_commute\<close>), so no ordering of strings is needed.
\<close>

fun commonprefix :: "string \<Rightarrow> string \<Rightarrow> string" where
  "commonprefix (c # s1) (d # s2) = (if c \<noteq> d then [] else c # commonprefix s1 s2)"
| "commonprefix [] s2 = []"
| "commonprefix (c # s1) [] = []"

text \<open>\<^verbatim>\<open>str.rfind\<close> for a one-character needle: the last index, or \<open>-1\<close>.\<close>

fun rfind_from :: "string \<Rightarrow> char \<Rightarrow> int \<Rightarrow> int \<Rightarrow> int" where
  "rfind_from [] c i found = found"
| "rfind_from (x # xs) c i found = rfind_from xs c (i + 1) (if x = c then i else found)"

definition rfind :: "string \<Rightarrow> char \<Rightarrow> int" where
  "rfind p c = rfind_from p c 0 (- 1)"

text \<open>
  \<^verbatim>\<open>splitext\<close> (\<^verbatim>\<open>genericpath._splitext\<close>): the extension starts at the last dot after
  the last separator, unless only dots lie between that separator and the dot.
  \<open>skip_leading_dots\<close> is the inner \<^verbatim>\<open>while filenameIndex < dotIndex\<close> loop; it
  answers whether the loop reached its \<^verbatim>\<open>return p[:dotIndex], p[dotIndex:]\<close>.
\<close>

function skip_leading_dots :: "string \<Rightarrow> nat \<Rightarrow> nat \<Rightarrow> bool" where
  "skip_leading_dots p filenameIndex dotIndex =
     (if filenameIndex < dotIndex
      then (if take 1 (drop filenameIndex p) \<noteq> extsep then True
            else skip_leading_dots p (filenameIndex + 1) dotIndex)
      else False)"
  by pat_completeness auto
termination
  by (relation "measure (\<lambda>(p, filenameIndex, dotIndex). dotIndex - filenameIndex)") auto

declare skip_leading_dots.simps [simp del]

definition splitext :: "string \<Rightarrow> string \<times> string" where
  "splitext p =
     (let sepIndex = rfind p (CHR ''/'');
          dotIndex = rfind p (CHR ''.'')
      in if dotIndex > sepIndex \<and> skip_leading_dots p (nat (sepIndex + 1)) (nat dotIndex)
         then (take (nat dotIndex) p, drop (nat dotIndex) p)
         else (p, []))"

text \<open>
  \<^verbatim>\<open>join(a, b)\<close>: an absolute \<^verbatim>\<open>b\<close> replaces \<^verbatim>\<open>a\<close>; an empty \<^verbatim>\<open>a\<close> or one that ends
  with the separator takes \<^verbatim>\<open>b\<close> directly; otherwise the separator comes between.
\<close>

definition startswith :: "string \<Rightarrow> string \<Rightarrow> bool" where
  "startswith s pre = (take (length pre) s = pre)"

definition endswith :: "string \<Rightarrow> string \<Rightarrow> bool" where
  "endswith s suf = (length suf \<le> length s \<and> drop (length s - length suf) s = suf)"

definition path_join :: "string \<Rightarrow> string \<Rightarrow> string" where
  "path_join a b =
     (if startswith b os_sep then b
      else if a = [] \<or> endswith a os_sep then a @ b
      else a @ os_sep @ b)"

section \<open>The emitter\<close>

subsection \<open>Making a source path relative to the calling SConscript\<close>

text \<open>
  The body of the first loop of \<^verbatim>\<open>_ProtocEmitter\<close>: \<open>src_path\<close> is
  \<^verbatim>\<open>src.srcnode().path\<close>, \<open>dir_path\<close> is \<^verbatim>\<open>dirOfCallingSConscript.path\<close>.
\<close>

definition corrected_path :: "string \<Rightarrow> string \<Rightarrow> string" where
  "corrected_path dir_path src_path =
     (let common = commonprefix dir_path src_path
      in if length common > 0 then drop (length (common @ os_sep)) src_path
         else src_path)"

subsection \<open>The construction environment\<close>

text \<open>
  The SCons environment is a dictionary of construction variables. The record has one
  field per variable the tool reads or writes, with the type of the value the tool
  itself stores there: a string, a \<^verbatim>\<open>CLVar\<close> (a list of words) or the dictionary of
  builders. \<open>None\<close> is an absent key, so that \<^verbatim>\<open>env[key]\<close> on it raises
  \<^verbatim>\<open>KeyError\<close>.
\<close>

datatype py_error = KeyError

datatype action = Action (cmd: string) (cmdstr: string)

datatype builder = Builder (action: action) (emitter: string) (srcsuffix: string)

record env =
  BUILDERS :: "(string \<rightharpoonup> builder) option"
  PROTOC :: "string option"
  PROTOCFLAGS :: "string list option"
  PROTOCPROTOPATH :: "string list option"
  PROTOCCOM_START :: "string option"
  PROTOCCOM_END :: "string option"
  PROTOCOUTDIR :: "string option"
  PROTOCPYTHONOUTDIR :: "string option"
  PROTOCJAVAOUTDIR :: "string option"
  PROTOCJAVAFLAG :: "string option"
  PROTOCPYTHONFLAG :: "string option"
  PROTOCCPPFLAG :: "string option"
  PROTOCSRCSUFFIX :: "string option"
  PROTOCFDSOUT :: "string option"

text \<open>
  \<^verbatim>\<open>env.Prepend(PROTOCPROTOPATH = val)\<close>: the value goes to the front of the variable's
  list; an absent variable is created holding the value.
\<close>

definition Prepend_PROTOCPROTOPATH :: "string \<Rightarrow> env \<Rightarrow> env" where
  "Prepend_PROTOCPROTOPATH val env =
     env\<lparr>PROTOCPROTOPATH :=
           Some (case PROTOCPROTOPATH env of None \<Rightarrow> [val] | Some orig \<Rightarrow> val # orig)\<rparr>"

subsection \<open>Predicting the targets\<close>

text \<open>
  The second loop of \<^verbatim>\<open>_ProtocEmitter\<close>, over the corrected source paths; \<open>target\<close>
  is the list the loop extends. A missing output-directory variable raises
  \<^verbatim>\<open>KeyError\<close> at the first source that needs it. A language other than the three
  adds nothing.
\<close>

fun emit_targets :: "env \<Rightarrow> string \<Rightarrow> string list \<Rightarrow> string list \<Rightarrow> py_error + string list" where
  "emit_targets env output_lang target [] = Inr target"
| "emit_targets env output_lang target (src # source) =
     (let modulename = fst (splitext src)
      in if output_lang = ''cpp'' then
           (case PROTOCOUTDIR env of
              None \<Rightarrow> Inl KeyError
            | Some outdir \<Rightarrow>
                (let base = path_join outdir modulename
                 in emit_targets env output_lang
                      (target @ [base @ ''.pb.cc'', base @ ''.pb.h'']) source))
         else if output_lang = ''python'' then
           (case PROTOCPYTHONOUTDIR env of
              None \<Rightarrow> Inl KeyError
            | Some outdir \<Rightarrow>
                (let base = path_join outdir modulename
                 in emit_targets env output_lang (target @ [base @ ''_pb2.py'']) source))
         else if output_lang = ''java'' then
           (case PROTOCJAVAOUTDIR env of
              None \<Rightarrow> Inl KeyError
            | Some outdir \<Rightarrow>
                (let base = path_join outdir modulename
                 in emit_targets env output_lang (target @ [base @ ''_pb2.java'']) source))
         else emit_targets env output_lang target source)"

text \<open>
  \<^verbatim>\<open>_ProtocEmitter(target, source, env, output_lang)\<close>. \<open>dirOfCallingSConscript\<close> is
  the path of \<^verbatim>\<open>Dir('.').srcnode()\<close>, and each source is given by the path of its
  \<^verbatim>\<open>srcnode()\<close>. The environment is changed before anything can raise, so the new
  environment is returned beside the result or the error.
\<close>

definition ProtocEmitter ::
  "string \<Rightarrow> string list \<Rightarrow> string list \<Rightarrow> env \<Rightarrow> string
     \<Rightarrow> env \<times> (py_error + string list \<times> string list)" where
  "ProtocEmitter dirOfCallingSConscript target source env output_lang =
     (let env1 = Prepend_PROTOCPROTOPATH dirOfCallingSConscript env;
          source_with_corrected_path = map (corrected_path dirOfCallingSConscript) source
      in (env1,
          case emit_targets env1 output_lang target source_with_corrected_path of
            Inl e \<Rightarrow> Inl e
          | Inr target1 \<Rightarrow>
              Inr (case PROTOCFDSOUT env1 of
                     Some fdsout \<Rightarrow> target1 @ [fdsout]
                   | None \<Rightarrow> target1,
                   source_with_corrected_path)))"

definition ProtocJavaEmitter ::
  "string \<Rightarrow> string list \<Rightarrow> string list \<Rightarrow> env \<Rightarrow> env \<times> (py_error + string list \<times> string list)" where
  "ProtocJavaEmitter d target source env = ProtocEmitter d target source env ''java''"

definition ProtocPythonEmitter ::
  "string \<Rightarrow> string list \<Rightarrow> string list \<Rightarrow> env \<Rightarrow> env \<times> (py_error + string list \<times> string list)" where
  "ProtocPythonEmitter d target source env = ProtocEmitter d target source env ''python''"

definition ProtocCPPEmitter ::
  "string \<Rightarrow> string list \<Rightarrow> string list \<Rightarrow> env \<Rightarrow> env \<times> (py_error + string list \<times> string list)" where
  "ProtocCPPEmitter d target source env = ProtocEmitter d target source env ''cpp''"

section \<open>The builders and their installation\<close>

definition protocs :: string where
  "protocs = ''protoc''"

definition ProtocJavaAction :: action where
  "ProtocJavaAction =
     Action ''$PROTOCCOM_START $PROTOCJAVAFLAG $PROTOCCOM_END'' ''Running protoc for Java output''"

definition ProtocPythonAction :: action where
  "ProtocPythonAction =
     Action ''$PROTOCCOM_START $PROTOCPYTHONFLAG $PROTOCCOM_END'' ''Running protoc for Python output''"

definition ProtocCPPAction :: action where
  "ProtocCPPAction =
     Action ''$PROTOCCOM_START $PROTOCCPPFLAG $PROTOCCOM_END'' ''Running protoc for CPP output''"

definition ProtocJavaBuilder :: builder where
  "ProtocJavaBuilder = Builder ProtocJavaAction ''ProtocJavaEmitter'' ''$PROTOCSRCSUFFIX''"

definition ProtocPythonBuilder :: builder where
  "ProtocPythonBuilder = Builder ProtocPythonAction ''ProtocPythonEmitter'' ''$PROTOCSRCSUFFIX''"

definition ProtocCPPBuilder :: builder where
  "ProtocCPPBuilder = Builder ProtocCPPAction ''ProtocCPPEmitter'' ''$PROTOCSRCSUFFIX''"

definition builder_dict :: "(string \<times> builder) list" where
  "builder_dict =
     [(''ProtocCPP'', ProtocCPPBuilder),
      (''ProtocPython'', ProtocPythonBuilder),
      (''ProtocJava'', ProtocJavaBuilder)]"

text \<open>
  The loop \<^verbatim>\<open>for key in _builder_dict.keys()\<close> of \<^verbatim>\<open>generate\<close>. An environment
  without \<^verbatim>\<open>BUILDERS\<close> raises \<^verbatim>\<open>KeyError\<close> in the \<^verbatim>\<open>try\<close> and again in the
  \<^verbatim>\<open>except\<close> branch, where nothing catches it.
\<close>

fun register_builders :: "string list \<Rightarrow> env \<Rightarrow> py_error + env" where
  "register_builders [] env = Inr env"
| "register_builders (key # keys) env =
     (case BUILDERS env of
        None \<Rightarrow> Inl KeyError
      | Some builders \<Rightarrow>
          (case builders key of
             Some bld \<Rightarrow> register_builders keys env
           | None \<Rightarrow>
               (case map_of builder_dict key of
                  None \<Rightarrow> Inl KeyError
                | Some bld \<Rightarrow>
                    register_builders keys (env\<lparr>BUILDERS := Some (builders(key \<mapsto> bld))\<rparr>))))"

text \<open>Python's \<^verbatim>\<open>x or d\<close> on an optional string: \<^verbatim>\<open>None\<close> and \<^verbatim>\<open>''\<close> are false.\<close>

definition py_or :: "string option \<Rightarrow> string \<Rightarrow> string" where
  "py_or x d = (case x of None \<Rightarrow> d | Some s \<Rightarrow> if s = [] then d else s)"

text \<open>
  \<^verbatim>\<open>generate(env)\<close>. \<open>Detect\<close> stands for \<^verbatim>\<open>env.Detect\<close>, which searches the
  machine's program path: \<open>None\<close> when the program is not found.
  \<^verbatim>\<open>SCons.Util.CLVar('')\<close> is the empty list of words.
\<close>

definition generate :: "(string \<Rightarrow> string option) \<Rightarrow> env \<Rightarrow> py_error + env" where
  \<open>generate Detect env =
     (case register_builders (map fst builder_dict) env of
        Inl e \<Rightarrow> Inl e
      | Inr env1 \<Rightarrow>
          Inr (env1\<lparr>
            PROTOC := Some (py_or (Detect protocs) ''protoc''),
            PROTOCFLAGS := Some [],
            PROTOCPROTOPATH := Some [],
            PROTOCCOM_START :=
              Some ''$PROTOC ${["-I%s"%x for x in PROTOCPROTOPATH]} $PROTOCFLAGS ${PROTOCFDSOUT and ("-o"+PROTOCFDSOUT) or ""}'',
            PROTOCCOM_END := Some ''${SOURCES}'',
            PROTOCOUTDIR := Some ''${SOURCE.dir}'',
            PROTOCPYTHONOUTDIR := Some ''python'',
            PROTOCJAVAOUTDIR := Some ''java'',
            PROTOCJAVAFLAG := Some ''--java_out=${PROTOCJAVAOUTDIR}'',
            PROTOCPYTHONFLAG := Some ''--python_out=${PROTOCPYTHONOUTDIR}'',
            PROTOCCPPFLAG := Some ''--cpp_out=${PROTOCOUTDIR}'',
            PROTOCSRCSUFFIX := Some ''.proto''\<rparr>))\<close>

definition exists_tool :: "(string \<Rightarrow> string option) \<Rightarrow> env \<Rightarrow> string option" where
  "exists_tool Detect env = Detect protocs"

section \<open>Command lines\<close>

text \<open>
  The command of a builder is the string of its action with the construction variables
  substituted, which SCons does (\<^verbatim>\<open>scons_subst_list\<close>). The strings are in
  \<^verbatim>\<open>protoc.py\<close>; what follows models the substitution for the constructs these strings
  and the values of their variables can contain.
\<close>

subsection \<open>Splitting a string into tokens\<close>


definition is_space :: "char \<Rightarrow> bool" where
  "is_space c = (c \<in> set [CHR '' '', CHR 0x09, CHR 0x0A, CHR 0x0D, CHR 0x0C, CHR 0x0B])"

definition is_name_start :: "char \<Rightarrow> bool" where
  "is_name_start c =
     (c \<in> set ''_abcdefghijklmnopqrstuvwxyzABCDEFGHIJKLMNOPQRSTUVWXYZ'')"

definition is_name_char :: "char \<Rightarrow> bool" where
  "is_name_char c = (c = CHR ''.'' \<or> is_name_start c \<or> c \<in> set ''0123456789'')"

definition is_text_char :: "char \<Rightarrow> bool" where
  "is_text_char c = (\<not> is_space c \<and> c \<noteq> CHR ''$'')"



subsection \<open>The words being built\<close>

text \<open>
  \<^verbatim>\<open>ListSubber\<close>: the finished command lines, the words of the current line, and whether
  the next text starts a new word (\<^verbatim>\<open>self.append\<close> is \<^verbatim>\<open>add_new_word\<close>) or continues
  the last one (\<^verbatim>\<open>add_to_current_word\<close>).
\<close>

record subber =
  finished :: "string list list"
  line :: "string list"
  new_word :: bool


definition add_new_word :: "string \<Rightarrow> subber \<Rightarrow> subber" where
  "add_new_word x st = st\<lparr>line := line st @ [x], new_word := False\<rparr>"

definition add_to_current_word :: "string \<Rightarrow> subber \<Rightarrow> subber" where
  "add_to_current_word x st =
     (if line st = [] then add_new_word x st
      else let current_word = last (line st)
           in if current_word \<noteq> [] \<and> last current_word \<in> set ''<>|'' then add_new_word x st
              else st\<lparr>line := butlast (line st) @ [current_word @ x]\<rparr>)"

definition append_text :: "string \<Rightarrow> subber \<Rightarrow> subber" where
  "append_text x st = (if new_word st then add_new_word x st else add_to_current_word x st)"




subsection \<open>The value of a variable or expression\<close>

text \<open>
  The variables of one build step: the targets and sources (nodes, given by their
  paths), and the directory of the first source, which is what \<^verbatim>\<open>SOURCE.dir\<close> prints.
\<close>

record lvars =
  TARGETS :: "string list"
  SOURCES :: "string list"
  SOURCE_dir :: string

text \<open>
  A value is a string or a list of strings, which are substituted again, or a node or a
  list of nodes, which are taken as they are.
\<close>

datatype val = Str string | StrList "string list" | Node string | NodeList "string list"







subsection \<open>Substitution\<close>







section \<open>Auxiliary definitions for the statements\<close>

text \<open>How many targets the second loop adds for one source.\<close>

definition outputs_per_source :: "string \<Rightarrow> nat" where
  "outputs_per_source lang =
     (if lang = ''cpp'' then 2 else if lang = ''python'' \<or> lang = ''java'' then 1 else 0)"

text \<open>
  The builder dictionary after the registration loop: what was there stays, and the
  names that were missing get the tool's builders.
\<close>

definition merged_builders :: "(string \<rightharpoonup> builder) \<Rightarrow> (string \<rightharpoonup> builder)" where
  "merged_builders builders k =
     (case builders k of Some bld \<Rightarrow> Some bld | None \<Rightarrow> map_of builder_dict k)"

text \<open>
  A word that substitution leaves alone: not empty, without white space and without
  \<^verbatim>\<open>$\<close>.
\<close>

definition plain_word :: "string \<Rightarrow> bool" where
  "plain_word s = (s \<noteq> [] \<and> list_all is_text_char s)"

text \<open>The environment that installing the tool makes of a new one, without the program.\<close>

definition default_env :: env where
  \<open>default_env =
     \<lparr>BUILDERS = Some [''ProtocCPP'' \<mapsto> ProtocCPPBuilder, ''ProtocPython'' \<mapsto> ProtocPythonBuilder,
                       ''ProtocJava'' \<mapsto> ProtocJavaBuilder],
      PROTOC = Some ''protoc'', PROTOCFLAGS = Some [], PROTOCPROTOPATH = Some [],
      PROTOCCOM_START =
        Some ''$PROTOC ${["-I%s"%x for x in PROTOCPROTOPATH]} $PROTOCFLAGS ${PROTOCFDSOUT and ("-o"+PROTOCFDSOUT) or ""}'',
      PROTOCCOM_END = Some ''${SOURCES}'', PROTOCOUTDIR = Some ''${SOURCE.dir}'',
      PROTOCPYTHONOUTDIR = Some ''python'', PROTOCJAVAOUTDIR = Some ''java'',
      PROTOCJAVAFLAG = Some ''--java_out=${PROTOCJAVAOUTDIR}'',
      PROTOCPYTHONFLAG = Some ''--python_out=${PROTOCPYTHONOUTDIR}'',
      PROTOCCPPFLAG = Some ''--cpp_out=${PROTOCOUTDIR}'',
      PROTOCSRCSUFFIX = Some ''.proto'', PROTOCFDSOUT = None\<rparr>\<close>



text \<open>Example inputs: a machine without the program, and one that has it.\<close>

definition no_protoc :: "string \<Rightarrow> string option" where
  "no_protoc prog = None"

definition found_protoc :: "string \<Rightarrow> string option" where
  "found_protoc prog = (if prog = ''protoc'' then Some ''/usr/bin/protoc'' else None)"

text \<open>A new environment, with an empty builder dictionary and none of the variables.\<close>

definition fresh_env :: env where
  "fresh_env =
     \<lparr>BUILDERS = Some Map.empty, PROTOC = None, PROTOCFLAGS = None, PROTOCPROTOPATH = None,
      PROTOCCOM_START = None, PROTOCCOM_END = None, PROTOCOUTDIR = None,
      PROTOCPYTHONOUTDIR = None, PROTOCJAVAOUTDIR = None, PROTOCJAVAFLAG = None,
      PROTOCPYTHONFLAG = None, PROTOCCPPFLAG = None, PROTOCSRCSUFFIX = None,
      PROTOCFDSOUT = None\<rparr>"

text \<open>The environment of a build description that sets its own output directories.\<close>

definition gen_env :: env where
  "gen_env =
     fresh_env\<lparr>PROTOCOUTDIR := Some ''gen'', PROTOCPYTHONOUTDIR := Some ''python'',
               PROTOCJAVAOUTDIR := Some ''java'', PROTOCPROTOPATH := Some []\<rparr>"

text \<open>A caller's own builder, registered under one of the tool's names.\<close>

definition custom_builder :: builder where
  "custom_builder = Builder (Action ''myprotoc $SOURCES'' ''custom rule'') ''MyEmitter'' ''.proto''"

definition custom_env :: env where
  "custom_env =
     fresh_env\<lparr>BUILDERS := Some [''ProtocCPP'' \<mapsto> custom_builder],
               PROTOCPYTHONOUTDIR := Some ''pyout''\<rparr>"

section \<open>Properties\<close>

subsection \<open>The common prefix\<close>

lemma commonprefix_Nil_right [simp]: "commonprefix a [] = []"
  by (cases a) simp_all

lemma commonprefix_commute: "commonprefix a b = commonprefix b a"
  by (induction a b rule: commonprefix.induct) auto

lemma commonprefix_prefix1: "prefix (commonprefix a b) a"
  by (induction a b rule: commonprefix.induct) auto

lemma commonprefix_prefix2: "prefix (commonprefix a b) b"
  by (induction a b rule: commonprefix.induct) auto

lemma commonprefix_longest:
  "prefix p a \<Longrightarrow> prefix p b \<Longrightarrow> prefix p (commonprefix a b)"
proof (induction a b arbitrary: p rule: commonprefix.induct)
  case (1 c s1 d s2)
  then show ?case by (cases p) auto
qed auto

lemma commonprefix_of_extension: "commonprefix a (a @ b) = a"
  by (induction a) auto

subsection \<open>Relative source paths\<close>

text \<open>
  Claim C1. For every pair of a source path and the directory of the calling SConscript,
  the emitter takes the longest common string prefix of the two (a prefix of both that
  every common prefix is a prefix of). When that prefix is not empty the corrected path is
  the source path without its first \<open>length prefix + length os_sep\<close> characters, and when
  it is empty the source path is kept as it is. In particular a source path
  \<open>base_dir @ os_sep @ rest\<close> under a directory \<open>base_dir\<close> is corrected to \<open>rest\<close>: the
  directory and the separator after it are stripped. (The empty string is no directory
  path; its common prefix with any path is empty, which is the unchanged case.)
\<close>

theorem corrected_path_strips_common_prefix:
  fixes base_dir input_path rest :: string
  defines "common \<equiv> commonprefix base_dir input_path"
  shows "prefix common base_dir \<and> prefix common input_path
         \<and> (\<forall>p. prefix p base_dir \<and> prefix p input_path \<longrightarrow> prefix p common)
         \<and> corrected_path base_dir input_path =
             (if common = [] then input_path
              else drop (length common + length os_sep) input_path)
         \<and> corrected_path base_dir (base_dir @ os_sep @ rest) =
             (if base_dir = [] then os_sep @ rest else rest)"
proof -
  have longest: "\<forall>p. prefix p base_dir \<and> prefix p input_path \<longrightarrow> prefix p common"
    unfolding common_def by (simp add: commonprefix_longest)
  have general: "corrected_path base_dir input_path =
      (if common = [] then input_path else drop (length common + length os_sep) input_path)"
    unfolding common_def by (simp add: corrected_path_def Let_def)
  have aligned: "corrected_path base_dir (base_dir @ os_sep @ rest) =
      (if base_dir = [] then os_sep @ rest else rest)"
    by (simp add: corrected_path_def commonprefix_of_extension)
  from longest general aligned show ?thesis
    unfolding common_def by (simp add: commonprefix_prefix1 commonprefix_prefix2)
qed

theorem corrected_path_strips_common_prefix_witness:
  "prefix ''fo'' ''foo'' \<and> prefix ''fo'' ''foo/bar.proto''
   \<and> prefix ''fo'' (commonprefix ''foo'' ''foo/bar.proto'')
   \<and> commonprefix ''foo'' ''foo/bar.proto'' = ''foo''
   \<and> corrected_path ''foo'' ''foo/bar.proto'' = ''bar.proto''"
  using corrected_path_strips_common_prefix [of "''foo''" "''foo/bar.proto''" "''bar.proto''"]
  by (simp add: os_sep_def)

subsection \<open>Predicted targets\<close>

lemma splitext_stem_prefix: "prefix (fst (splitext p)) p"
  by (simp add: splitext_def Let_def take_is_prefix)

lemma startswith_prefix: "prefix s p \<Longrightarrow> startswith s os_sep \<Longrightarrow> startswith p os_sep"
  by (cases s) (auto simp: startswith_def os_sep_def prefix_def)

lemma stem_relative:
  "\<not> startswith p os_sep \<Longrightarrow> \<not> startswith (fst (splitext p)) os_sep"
  using startswith_prefix [OF splitext_stem_prefix] by blast

lemma path_join_relative:
  "\<not> startswith b os_sep \<Longrightarrow>
   path_join a b = (if a = [] \<or> endswith a os_sep then a @ b else a @ os_sep @ b)"
  by (simp add: path_join_def)

lemma splitext_bar: "splitext ''bar.proto'' = (''bar'', ''.proto'')"
  by (simp add: splitext_def rfind_def skip_leading_dots.simps extsep_def)

text \<open>
  Claim C2. For a relative input path that \<^verbatim>\<open>splitext\<close> splits into the stem \<open>S\<close> and the
  extension \<open>.proto\<close>, the target loop for the language \<open>cpp\<close> with the output directory
  \<open>dir\<close> adds exactly the two paths \<open>dir/S.pb.cc\<close> and \<open>dir/S.pb.h\<close>, in this order, to the
  target list it was given (the empty list when the targets are computed). \<open>dir/S\<close> is
  the path join, which for a relative \<open>S\<close> puts one separator between the two unless
  \<open>dir\<close> is empty or already ends with one.
\<close>

theorem cpp_targets:
  assumes "splitext relative_input_path = (S, ''.proto'')"
    and "\<not> startswith relative_input_path os_sep"
    and "PROTOCOUTDIR env = Some dir"
  shows "emit_targets env ''cpp'' target [relative_input_path] =
           Inr (target @ [path_join dir S @ ''.pb.cc'', path_join dir S @ ''.pb.h''])
         \<and> path_join dir S =
             (if dir = [] \<or> endswith dir os_sep then dir @ S else dir @ os_sep @ S)"
proof -
  have "fst (splitext relative_input_path) = S" using assms(1) by simp
  with assms(2) have "\<not> startswith S os_sep" using stem_relative by blast
  then have "path_join dir S =
      (if dir = [] \<or> endswith dir os_sep then dir @ S else dir @ os_sep @ S)"
    by (rule path_join_relative)
  moreover have "emit_targets env ''cpp'' target [relative_input_path] =
      Inr (target @ [path_join dir S @ ''.pb.cc'', path_join dir S @ ''.pb.h''])"
    using assms(1,3) by (simp add: Let_def)
  ultimately show ?thesis by blast
qed

theorem cpp_targets_witness:
  "splitext ''bar.proto'' = (''bar'', ''.proto'') \<and> \<not> startswith ''bar.proto'' os_sep
   \<and> PROTOCOUTDIR gen_env = Some ''gen''
   \<and> emit_targets gen_env ''cpp'' [] [''bar.proto''] = Inr [''gen/bar.pb.cc'', ''gen/bar.pb.h'']"
proof -
  have a: "splitext ''bar.proto'' = (''bar'', ''.proto'')" by (rule splitext_bar)
  have b: "\<not> startswith ''bar.proto'' os_sep" by (simp add: startswith_def os_sep_def)
  have c: "PROTOCOUTDIR gen_env = Some ''gen''" by (simp add: gen_env_def fresh_env_def)
  from cpp_targets [OF a b c, where target = "[]"] a b c show ?thesis
    by (simp add: os_sep_def endswith_def)
qed

text \<open>
  Claim C3. For a relative input path whose stem (the first component of \<^verbatim>\<open>splitext\<close>)
  is \<open>S\<close>, the target loop for the language \<open>python\<close> with its output directory \<open>dir\<close>
  adds exactly the one path \<open>dir/S_pb2.py\<close>, and for the language \<open>java\<close> with its output
  directory \<open>dir\<close> exactly the one path \<open>dir/S_pb2.java\<close>.
\<close>

theorem python_java_targets:
  assumes "fst (splitext relative_input_path) = S"
    and "\<not> startswith relative_input_path os_sep"
  shows "(PROTOCPYTHONOUTDIR env = Some dir \<longrightarrow>
            emit_targets env ''python'' target [relative_input_path] =
              Inr (target @ [path_join dir S @ ''_pb2.py'']))
         \<and> (PROTOCJAVAOUTDIR env = Some dir \<longrightarrow>
            emit_targets env ''java'' target [relative_input_path] =
              Inr (target @ [path_join dir S @ ''_pb2.java'']))
         \<and> path_join dir S =
             (if dir = [] \<or> endswith dir os_sep then dir @ S else dir @ os_sep @ S)"
proof -
  from assms have "\<not> startswith S os_sep" using stem_relative by blast
  then have "path_join dir S =
      (if dir = [] \<or> endswith dir os_sep then dir @ S else dir @ os_sep @ S)"
    by (rule path_join_relative)
  moreover have "PROTOCPYTHONOUTDIR env = Some dir \<longrightarrow>
      emit_targets env ''python'' target [relative_input_path] =
        Inr (target @ [path_join dir S @ ''_pb2.py''])"
    using assms(1) by (simp add: Let_def)
  moreover have "PROTOCJAVAOUTDIR env = Some dir \<longrightarrow>
      emit_targets env ''java'' target [relative_input_path] =
        Inr (target @ [path_join dir S @ ''_pb2.java''])"
    using assms(1) by (simp add: Let_def)
  ultimately show ?thesis by blast
qed

theorem python_java_targets_witness:
  "fst (splitext ''bar.proto'') = ''bar'' \<and> \<not> startswith ''bar.proto'' os_sep
   \<and> PROTOCPYTHONOUTDIR gen_env = Some ''python'' \<and> PROTOCJAVAOUTDIR gen_env = Some ''java''
   \<and> emit_targets gen_env ''python'' [] [''bar.proto''] = Inr [''python/bar_pb2.py'']
   \<and> emit_targets gen_env ''java'' [] [''bar.proto''] = Inr [''java/bar_pb2.java'']"
proof -
  have a: "fst (splitext ''bar.proto'') = ''bar''" by (simp add: splitext_bar)
  have b: "\<not> startswith ''bar.proto'' os_sep" by (simp add: startswith_def os_sep_def)
  have c: "PROTOCPYTHONOUTDIR gen_env = Some ''python''" "PROTOCJAVAOUTDIR gen_env = Some ''java''"
    by (simp_all add: gen_env_def fresh_env_def)
  from python_java_targets [OF a b, where env = gen_env and dir = "''python''" and target = "[]"]
       python_java_targets [OF a b, where env = gen_env and dir = "''java''" and target = "[]"] a b c
  show ?thesis
    by (simp add: os_sep_def endswith_def)
qed

subsection \<open>The descriptor set\<close>

lemma emit_targets_cong:
  "PROTOCOUTDIR e1 = PROTOCOUTDIR e2 \<Longrightarrow> PROTOCPYTHONOUTDIR e1 = PROTOCPYTHONOUTDIR e2 \<Longrightarrow>
   PROTOCJAVAOUTDIR e1 = PROTOCJAVAOUTDIR e2 \<Longrightarrow>
   emit_targets e1 lang target source = emit_targets e2 lang target source"
  by (induction source arbitrary: target) (auto simp: Let_def split: option.splits)

lemma emit_targets_total:
  assumes "PROTOCOUTDIR env = Some a" "PROTOCPYTHONOUTDIR env = Some b" "PROTOCJAVAOUTDIR env = Some c"
  shows "\<exists>outs. emit_targets env lang target source = Inr (target @ outs)
           \<and> length outs = outputs_per_source lang * length source"
proof (induction source arbitrary: target)
  case Nil
  then show ?case by simp
next
  case (Cons src source)
  show ?case
  proof (cases "lang = ''cpp''")
    case True
    let ?base = "path_join a (fst (splitext src))"
    obtain outs where "emit_targets env lang (target @ [?base @ ''.pb.cc'', ?base @ ''.pb.h'']) source
        = Inr ((target @ [?base @ ''.pb.cc'', ?base @ ''.pb.h'']) @ outs)"
      and "length outs = outputs_per_source lang * length source"
      using Cons.IH by blast
    with True assms show ?thesis
      by (auto simp: Let_def outputs_per_source_def)
  next
    case False
    note notcpp = this
    show ?thesis
    proof (cases "lang = ''python''")
      case True
      let ?base = "path_join b (fst (splitext src))"
      obtain outs where "emit_targets env lang (target @ [?base @ ''_pb2.py'']) source
          = Inr ((target @ [?base @ ''_pb2.py'']) @ outs)"
        and "length outs = outputs_per_source lang * length source"
        using Cons.IH by blast
      with True assms show ?thesis
        by (auto simp: Let_def outputs_per_source_def)
    next
      case False
      note notpy = this
      show ?thesis
      proof (cases "lang = ''java''")
        case True
        let ?base = "path_join c (fst (splitext src))"
        obtain outs where "emit_targets env lang (target @ [?base @ ''_pb2.java'']) source
            = Inr ((target @ [?base @ ''_pb2.java'']) @ outs)"
          and "length outs = outputs_per_source lang * length source"
          using Cons.IH by blast
        with True assms show ?thesis
          by (auto simp: Let_def outputs_per_source_def)
      next
        case False
        obtain outs where "emit_targets env lang target source = Inr (target @ outs)"
          and "length outs = outputs_per_source lang * length source"
          using Cons.IH by blast
        with False notpy notcpp show ?thesis
          by (auto simp: Let_def outputs_per_source_def)
      qed
    qed
  qed
qed

lemma Prepend_other_fields [simp]:
  "PROTOCFDSOUT (Prepend_PROTOCPROTOPATH v e) = PROTOCFDSOUT e"
  "PROTOCOUTDIR (Prepend_PROTOCPROTOPATH v e) = PROTOCOUTDIR e"
  "PROTOCPYTHONOUTDIR (Prepend_PROTOCPROTOPATH v e) = PROTOCPYTHONOUTDIR e"
  "PROTOCJAVAOUTDIR (Prepend_PROTOCPROTOPATH v e) = PROTOCJAVAOUTDIR e"
  by (simp_all add: Prepend_PROTOCPROTOPATH_def)

text \<open>
  Claim C4. For every input and every language, the emitter's targets with a descriptor-set
  path configured are its targets without one, followed by that path, once, at the end;
  an error of the target loop is the same in both cases. Without a descriptor-set path the
  missing key raises nothing: when the three output directories are set, the emitter
  returns the given targets followed by the outputs of the language alone (two for each
  source for \<open>cpp\<close>, one for \<open>python\<close> and \<open>java\<close>).
\<close>

theorem descriptor_set_appended_once:
  "snd (ProtocEmitter base target source (env\<lparr>PROTOCFDSOUT := Some fdsout\<rparr>) lang) =
     (case snd (ProtocEmitter base target source (env\<lparr>PROTOCFDSOUT := None\<rparr>) lang) of
        Inl e \<Rightarrow> Inl e
      | Inr (t, s) \<Rightarrow> Inr (t @ [fdsout], s))
   \<and> (PROTOCOUTDIR env \<noteq> None \<and> PROTOCPYTHONOUTDIR env \<noteq> None \<and> PROTOCJAVAOUTDIR env \<noteq> None \<longrightarrow>
       (\<exists>outs. snd (ProtocEmitter base target source (env\<lparr>PROTOCFDSOUT := None\<rparr>) lang) =
                  Inr (target @ outs, map (corrected_path base) source)
              \<and> length outs = outputs_per_source lang * length source))"
proof -
  let ?src = "map (corrected_path base) source"
  have same: "emit_targets (Prepend_PROTOCPROTOPATH base (env\<lparr>PROTOCFDSOUT := x\<rparr>)) lang target ?src
      = emit_targets env lang target ?src" for x
    by (rule emit_targets_cong) simp_all
  have first: "snd (ProtocEmitter base target source (env\<lparr>PROTOCFDSOUT := Some fdsout\<rparr>) lang) =
     (case snd (ProtocEmitter base target source (env\<lparr>PROTOCFDSOUT := None\<rparr>) lang) of
        Inl e \<Rightarrow> Inl e
      | Inr (t, s) \<Rightarrow> Inr (t @ [fdsout], s))"
    by (simp add: ProtocEmitter_def Let_def same split: sum.splits)
  have second: "\<exists>outs. snd (ProtocEmitter base target source (env\<lparr>PROTOCFDSOUT := None\<rparr>) lang) =
                  Inr (target @ outs, ?src)
              \<and> length outs = outputs_per_source lang * length source"
    if "PROTOCOUTDIR env \<noteq> None" "PROTOCPYTHONOUTDIR env \<noteq> None" "PROTOCJAVAOUTDIR env \<noteq> None"
  proof -
    from that obtain a b c where "PROTOCOUTDIR env = Some a" "PROTOCPYTHONOUTDIR env = Some b"
      "PROTOCJAVAOUTDIR env = Some c" by auto
    from emit_targets_total [OF this, of lang target ?src]
    obtain outs where "emit_targets env lang target ?src = Inr (target @ outs)"
      and "length outs = outputs_per_source lang * length source" by auto
    then show ?thesis
      by (simp add: ProtocEmitter_def Let_def same)
  qed
  from first second show ?thesis by blast
qed

theorem descriptor_set_appended_once_witness:
  "PROTOCOUTDIR gen_env \<noteq> None \<and> PROTOCPYTHONOUTDIR gen_env \<noteq> None \<and> PROTOCJAVAOUTDIR gen_env \<noteq> None
   \<and> snd (ProtocEmitter ''foo'' [] [''foo/bar.proto''] (gen_env\<lparr>PROTOCFDSOUT := None\<rparr>) ''python'')
       = Inr ([''python/bar_pb2.py''], [''bar.proto''])
   \<and> snd (ProtocEmitter ''foo'' [] [''foo/bar.proto''] (gen_env\<lparr>PROTOCFDSOUT := Some ''all.desc''\<rparr>) ''python'')
       = Inr ([''python/bar_pb2.py'', ''all.desc''], [''bar.proto''])"
proof -
  have dirs: "PROTOCOUTDIR gen_env \<noteq> None \<and> PROTOCPYTHONOUTDIR gen_env \<noteq> None
      \<and> PROTOCJAVAOUTDIR gen_env \<noteq> None"
    by (simp add: gen_env_def fresh_env_def)
  have rel: "corrected_path ''foo'' ''foo/bar.proto'' = ''bar.proto''"
    by (simp add: corrected_path_def os_sep_def)
  have without: "snd (ProtocEmitter ''foo'' [] [''foo/bar.proto''] (gen_env\<lparr>PROTOCFDSOUT := None\<rparr>) ''python'')
       = Inr ([''python/bar_pb2.py''], [''bar.proto''])"
    by (simp add: ProtocEmitter_def Let_def rel splitext_bar gen_env_def fresh_env_def
          Prepend_PROTOCPROTOPATH_def path_join_def startswith_def endswith_def os_sep_def)
  from descriptor_set_appended_once
         [where base = "''foo''" and target = "[]" and source = "[''foo/bar.proto'']"
            and env = gen_env and fdsout = "''all.desc''" and lang = "''python''"]
       dirs without
  show ?thesis by simp
qed

subsection \<open>Installing the tool\<close>

lemma register_builders_keeps:
  "BUILDERS env = Some builders \<Longrightarrow> set keys \<subseteq> set (map fst builder_dict) \<Longrightarrow>
   \<exists>builders'. register_builders keys env = Inr (env\<lparr>BUILDERS := Some builders'\<rparr>)
      \<and> (\<forall>k bld. builders k = Some bld \<longrightarrow> builders' k = Some bld)
      \<and> (\<forall>k. builders k = None \<longrightarrow>
            builders' k = (if k \<in> set keys then map_of builder_dict k else None))"
proof (induction keys arbitrary: env builders)
  case Nil
  then show ?case by (intro exI [of _ builders]) simp
next
  case (Cons key keys)
  show ?case
  proof (cases "builders key")
    case (Some bld)
    with Cons.prems Cons.IH [of env builders]
    obtain b' where "register_builders keys env = Inr (env\<lparr>BUILDERS := Some b'\<rparr>)"
      and "\<forall>k bld. builders k = Some bld \<longrightarrow> b' k = Some bld"
      and "\<forall>k. builders k = None \<longrightarrow> b' k = (if k \<in> set keys then map_of builder_dict k else None)"
      by auto
    with Some Cons.prems show ?thesis
      by (intro exI [of _ b']) auto
  next
    case None
    from Cons.prems have "key \<in> set (map fst builder_dict)" by simp
    then obtain bld where bld: "map_of builder_dict key = Some bld"
      by (metis map_of_eq_None_iff not_Some_eq set_map)
    let ?b = "builders(key \<mapsto> bld)"
    let ?env = "env\<lparr>BUILDERS := Some ?b\<rparr>"
    have "BUILDERS ?env = Some ?b" by simp
    moreover from Cons.prems have "set keys \<subseteq> set (map fst builder_dict)" by simp
    ultimately have "\<exists>b'. register_builders keys ?env = Inr (?env\<lparr>BUILDERS := Some b'\<rparr>)
      \<and> (\<forall>k x. ?b k = Some x \<longrightarrow> b' k = Some x)
      \<and> (\<forall>k. ?b k = None \<longrightarrow> b' k = (if k \<in> set keys then map_of builder_dict k else None))"
      by (rule Cons.IH)
    then obtain b' where r: "register_builders keys ?env = Inr (?env\<lparr>BUILDERS := Some b'\<rparr>)"
      and k: "\<forall>k x. ?b k = Some x \<longrightarrow> b' k = Some x"
      and n: "\<forall>k. ?b k = None \<longrightarrow> b' k = (if k \<in> set keys then map_of builder_dict k else None)"
      by blast
    have "\<forall>k x. builders k = Some x \<longrightarrow> b' k = Some x"
      using k None by (metis fun_upd_apply option.distinct(1))
    moreover have "\<forall>k. builders k = None \<longrightarrow>
        b' k = (if k \<in> set (key # keys) then map_of builder_dict k else None)"
      using k n bld by (metis fun_upd_apply list.set_intros(1) set_ConsD list.set_intros(2))
    ultimately show ?thesis
      using None bld Cons.prems r by (intro exI [of _ b']) simp
  qed
qed

lemma register_builders_None:
  "BUILDERS env = None \<Longrightarrow> keys \<noteq> [] \<Longrightarrow> register_builders keys env = Inl KeyError"
  by (cases keys) auto

lemma register_builders_all:
  assumes "BUILDERS env = Some builders"
  shows "register_builders (map fst builder_dict) env =
           Inr (env\<lparr>BUILDERS := Some (merged_builders builders)\<rparr>)"
proof -
  from register_builders_keeps [OF assms subset_refl]
  obtain b' where r: "register_builders (map fst builder_dict) env = Inr (env\<lparr>BUILDERS := Some b'\<rparr>)"
    and k: "\<forall>k bld. builders k = Some bld \<longrightarrow> b' k = Some bld"
    and n: "\<forall>k. builders k = None \<longrightarrow>
              b' k = (if k \<in> set (map fst builder_dict) then map_of builder_dict k else None)"
    by blast
  have "b' k = merged_builders builders k" for k
  proof (cases "builders k")
    case None
    with n show ?thesis
      by (auto simp: merged_builders_def map_of_eq_None_iff [symmetric])
  next
    case (Some bld)
    with k show ?thesis by (simp add: merged_builders_def)
  qed
  then have "b' = merged_builders builders" by (rule ext)
  with r show ?thesis by simp
qed

lemma merged_builders_idem: "merged_builders (merged_builders b) = merged_builders b"
  by (rule ext) (simp add: merged_builders_def split: option.splits)

text \<open>
  Claim C5. In every environment (one with a builder dictionary) in which one of the three
  rule names already has a builder, installing the tool succeeds and leaves that builder
  under that name; and installing the tool once more, whatever the program search
  returns, leaves the whole builder dictionary as the first installation left it.
\<close>

theorem registration_keeps_existing_builder:
  assumes "BUILDERS env = Some builders"
    and "key \<in> set [''ProtocCPP'', ''ProtocPython'', ''ProtocJava'']"
    and "builders key = Some bld"
  shows "\<exists>env' builders'. generate Detect env = Inr env' \<and> BUILDERS env' = Some builders'
           \<and> builders' key = Some bld
           \<and> (\<exists>env''. generate Detect' env' = Inr env'' \<and> BUILDERS env'' = BUILDERS env')"
  using assms(1,3)
  by (simp add: generate_def register_builders_all merged_builders_idem)
     (simp add: merged_builders_def)

theorem registration_keeps_existing_builder_witness:
  "BUILDERS custom_env = Some [''ProtocCPP'' \<mapsto> custom_builder]
   \<and> ''ProtocCPP'' \<in> set [''ProtocCPP'', ''ProtocPython'', ''ProtocJava'']
   \<and> [''ProtocCPP'' \<mapsto> custom_builder] ''ProtocCPP'' = Some custom_builder
   \<and> (\<exists>env' builders'. generate no_protoc custom_env = Inr env' \<and> BUILDERS env' = Some builders'
           \<and> builders' ''ProtocCPP'' = Some custom_builder
           \<and> (\<exists>env''. generate found_protoc env' = Inr env'' \<and> BUILDERS env'' = BUILDERS env'))"
proof -
  have a: "BUILDERS custom_env = Some [''ProtocCPP'' \<mapsto> custom_builder]"
    by (simp add: custom_env_def fresh_env_def)
  have b: "''ProtocCPP'' \<in> set [''ProtocCPP'', ''ProtocPython'', ''ProtocJava'']" by simp
  have c: "[''ProtocCPP'' \<mapsto> custom_builder] ''ProtocCPP'' = Some custom_builder" by simp
  from registration_keeps_existing_builder
         [OF a b c, where Detect = no_protoc and Detect' = found_protoc] a b c
  show ?thesis by blast
qed

text \<open>
  Claim C9. Installing the tool raises only in an environment without a builder
  dictionary, whatever the search for the program returns. When it succeeds and the
  program was not found, the variable \<open>PROTOC\<close> holds the literal \<open>protoc\<close>; when the program
  was found, \<open>PROTOC\<close> holds what the search returned.
\<close>

theorem generate_defaults_missing_protoc:
  "((\<exists>e. generate Detect env = Inl e) \<longleftrightarrow> BUILDERS env = None)
   \<and> (\<forall>env'. generate Detect env = Inr env' \<longrightarrow>
         (Detect protocs = None \<longrightarrow> PROTOC env' = Some ''protoc'')
         \<and> (\<forall>path. Detect protocs = Some path \<and> path \<noteq> [] \<longrightarrow> PROTOC env' = Some path))"
proof (cases "BUILDERS env")
  case None
  then show ?thesis
    by (simp add: generate_def register_builders_None builder_dict_def)
next
  case (Some b)
  then show ?thesis
    by (auto simp: generate_def register_builders_all py_or_def)
qed

theorem generate_defaults_missing_protoc_witness:
  "BUILDERS fresh_env \<noteq> None \<and> no_protoc protocs = None
   \<and> found_protoc protocs = Some ''/usr/bin/protoc''
   \<and> map_sum id PROTOC (generate no_protoc fresh_env) = Inr (Some ''protoc'')
   \<and> map_sum id PROTOC (generate found_protoc fresh_env) = Inr (Some ''/usr/bin/protoc'')"
proof -
  have b: "BUILDERS fresh_env \<noteq> None" by (simp add: fresh_env_def)
  have n: "no_protoc protocs = None" by (simp add: no_protoc_def)
  have f: "found_protoc protocs = Some ''/usr/bin/protoc''" by (simp add: found_protoc_def protocs_def)
  from generate_defaults_missing_protoc [of no_protoc fresh_env] b
  obtain e1 where e1: "generate no_protoc fresh_env = Inr e1"
    by (cases "generate no_protoc fresh_env") auto
  from generate_defaults_missing_protoc [of found_protoc fresh_env] b
  obtain e2 where e2: "generate found_protoc fresh_env = Inr e2"
    by (cases "generate found_protoc fresh_env") auto
  from generate_defaults_missing_protoc [of no_protoc fresh_env] e1 n
  have "PROTOC e1 = Some ''protoc''" by blast
  moreover from generate_defaults_missing_protoc [of found_protoc fresh_env] e2 f
  have "PROTOC e2 = Some ''/usr/bin/protoc''" by blast
  ultimately show ?thesis using b n f e1 e2 by simp
qed

subsection \<open>Command lines\<close>

lemmas char_class_defs = is_space_def is_name_start_def is_name_char_def is_text_char_def








lemma plain_word_prefixed: "list_all is_text_char s \<Longrightarrow> plain_word (''-I'' @ s)"
  "list_all is_text_char s \<Longrightarrow> plain_word (''-o'' @ s)"
  by (simp_all add: plain_word_def char_class_defs)

lemma append_new_word [simp]:
  "append_text x \<lparr>finished = F, line = L, new_word = True\<rparr> =
     \<lparr>finished = F, line = L @ [x], new_word = False\<rparr>"
  by (simp add: append_text_def add_new_word_def)













lemma generate_fresh: "generate no_protoc fresh_env = Inr default_env"
  by (simp add: generate_def builder_dict_def fresh_env_def default_env_def no_protoc_def py_or_def)



subsection \<open>What installing does to the variables\<close>

text \<open>
  A caller's value of a configuration variable does not survive installing the tool: an
  environment with the Python output directory \<open>pyout\<close> has the directory \<open>python\<close>
  afterwards.
\<close>

theorem generate_overrides_python_outdir:
  "PROTOCPYTHONOUTDIR custom_env = Some ''pyout''
   \<and> map_sum id PROTOCPYTHONOUTDIR (generate no_protoc custom_env) = Inr (Some ''python'')"
  by (simp add: custom_env_def fresh_env_def generate_def register_builders_all)

text \<open>
  Claim C6, amended. Installing the tool sets each of the twelve configuration variables
  (program name, flags, include path, the two command templates, the three output
  directories, the three output flag templates, the source suffix) to its default whatever
  the environment held before: the result is the same for every prior value of these
  variables. The one variable of the tool that keeps its prior value is the descriptor-set
  path, which installing does not write.
\<close>

theorem generate_sets_defaults:
  assumes "generate Detect env = Inr env'"
  shows \<open>generate Detect
           (env\<lparr>PROTOC := v1, PROTOCFLAGS := v2, PROTOCPROTOPATH := v3, PROTOCCOM_START := v4,
                PROTOCCOM_END := v5, PROTOCOUTDIR := v6, PROTOCPYTHONOUTDIR := v7,
                PROTOCJAVAOUTDIR := v8, PROTOCJAVAFLAG := v9, PROTOCPYTHONFLAG := v10,
                PROTOCCPPFLAG := v11, PROTOCSRCSUFFIX := v12\<rparr>) = Inr env'
         \<and> PROTOC env' = Some (py_or (Detect protocs) ''protoc'')
         \<and> PROTOCFLAGS env' = Some [] \<and> PROTOCPROTOPATH env' = Some []
         \<and> PROTOCCOM_START env' =
             Some ''$PROTOC ${["-I%s"%x for x in PROTOCPROTOPATH]} $PROTOCFLAGS ${PROTOCFDSOUT and ("-o"+PROTOCFDSOUT) or ""}''
         \<and> PROTOCCOM_END env' = Some ''${SOURCES}''
         \<and> PROTOCOUTDIR env' = Some ''${SOURCE.dir}''
         \<and> PROTOCPYTHONOUTDIR env' = Some ''python'' \<and> PROTOCJAVAOUTDIR env' = Some ''java''
         \<and> PROTOCJAVAFLAG env' = Some ''--java_out=${PROTOCJAVAOUTDIR}''
         \<and> PROTOCPYTHONFLAG env' = Some ''--python_out=${PROTOCPYTHONOUTDIR}''
         \<and> PROTOCCPPFLAG env' = Some ''--cpp_out=${PROTOCOUTDIR}''
         \<and> PROTOCSRCSUFFIX env' = Some ''.proto''
         \<and> PROTOCFDSOUT env' = PROTOCFDSOUT env\<close>
proof (cases "BUILDERS env")
  case None
  with assms show ?thesis
    by (simp add: generate_def register_builders_None builder_dict_def)
next
  case (Some b)
  with assms show ?thesis
    by (auto simp: generate_def register_builders_all)
qed

theorem generate_sets_defaults_witness:
  "generate no_protoc fresh_env = Inr default_env
   \<and> generate no_protoc (fresh_env\<lparr>PROTOC := Some ''/opt/bin/protoc'', PROTOCFLAGS := Some [''--x''],
        PROTOCPROTOPATH := Some [''inc''], PROTOCCOM_START := None, PROTOCCOM_END := None,
        PROTOCOUTDIR := Some ''gen'', PROTOCPYTHONOUTDIR := Some ''pyout'',
        PROTOCJAVAOUTDIR := Some ''jout'', PROTOCJAVAFLAG := None, PROTOCPYTHONFLAG := None,
        PROTOCCPPFLAG := None, PROTOCSRCSUFFIX := Some ''.pb''\<rparr>) = Inr default_env
   \<and> PROTOCPYTHONOUTDIR default_env = Some ''python''"
  using generate_sets_defaults [OF generate_fresh, where ?v1.0 = "Some ''/opt/bin/protoc''"
      and ?v2.0 = "Some [''--x'']" and ?v3.0 = "Some [''inc'']" and ?v4.0 = None and ?v5.0 = None
      and ?v6.0 = "Some ''gen''" and ?v7.0 = "Some ''pyout''" and ?v8.0 = "Some ''jout''"
      and ?v9.0 = None and ?v10.0 = None and ?v11.0 = None and ?v12.0 = "Some ''.pb''"]
    generate_fresh
  by simp

subsection \<open>What a prediction does to the environment\<close>







end
